theory Spec2Isabelle
  imports Complex_Main "HOL-Library.Stream"
begin

section \<open>Data model of the melody engine (src/src/melody.py)\<close>

text \<open>
  Python integers are unbounded and become \<open>int\<close>. Python floats (times in beats,
  probabilities, the legato factor, the uniqueness score) are modelled by exact
  rationals: every claim treated below is about structure (which notes, which
  pitches, which counts), not about IEEE rounding.
\<close>

datatype py_error = IndexError | KeyError | ValueError

datatype Contour = ARCH | DESCENDING | ASCENDING | WAVE | STATIC

datatype MotifDevelopment =
  EXACT | TRANSPOSED | INVERTED | RETROGRADE | AUGMENTED | DIMINISHED | VARIED

record MelodyParams =
  root_note :: string
  mode :: string
  tempo :: int
  duration_seconds :: int
  octave :: int
  contour :: Contour
  note_density :: rat
  use_motifs :: bool
  motif_length :: int
  development_probability :: rat
  max_repetition :: int
  variation_amount :: rat
  time_signature :: "int \<times> int"
  syncopation :: rat
  velocity_range :: "int \<times> int"
  legato :: rat

record MelodyNote =
  pitch :: int
  start_time :: rat
  duration :: rat
  velocity :: int

text \<open>
  A Motif: its notes and the contour (interval list) it was generated from. Field
  names shared by several classes of the source carry the class as a prefix.
\<close>

record Motif =
  motif_notes :: "MelodyNote list"
  motif_contour :: "int list"

text \<open>
  Python lists hold references. A motif object is never changed after it has been
  built, so a reference is modelled by the pair of the object's identity (the
  number of motif objects allocated before it during the call) and its value.
\<close>

type_synonym motif_ref = "nat \<times> Motif"

record Melody =
  melody_notes :: "MelodyNote list"
  motifs :: "motif_ref list"
  params :: MelodyParams
  uniqueness_score :: rat

definition default_params :: MelodyParams where
  "default_params =
     \<lparr>root_note = ''C'', mode = ''major'', tempo = 70, duration_seconds = 60, octave = 5,
      contour = ARCH, note_density = 1/2, use_motifs = True, motif_length = 4,
      development_probability = 6/10, max_repetition = 2, variation_amount = 3/10,
      time_signature = (4, 4), syncopation = 2/10, velocity_range = (50, 80),
      legato = 7/10\<rparr>"

section \<open>Scales (src/src/generator.py)\<close>

definition NOTE_MAP :: "(string \<times> int) list" where
  "NOTE_MAP =
     [(''C'', 60), (''C#'', 61), (''Db'', 61),
      (''D'', 62), (''D#'', 63), (''Eb'', 63),
      (''E'', 64),
      (''F'', 65), (''F#'', 66), (''Gb'', 66),
      (''G'', 67), (''G#'', 68), (''Ab'', 68),
      (''A'', 69), (''A#'', 70), (''Bb'', 70),
      (''B'', 71)]"

definition SCALES :: "(string \<times> int list) list" where
  "SCALES =
     [(''major'', [0, 2, 4, 5, 7, 9, 11]),
      (''minor'', [0, 2, 3, 5, 7, 8, 10]),
      (''pentatonic_major'', [0, 2, 4, 7, 9]),
      (''pentatonic_minor'', [0, 3, 5, 7, 10]),
      (''dorian'', [0, 2, 3, 5, 7, 9, 10])]"

text \<open>\<open>d.get(k, default)\<close> and \<open>d[k]\<close> on a dictionary given by its items.\<close>

definition dict_get :: "('k \<times> 'v) list \<Rightarrow> 'k \<Rightarrow> 'v \<Rightarrow> 'v" where
  "dict_get d k dflt = (case map_of d k of None \<Rightarrow> dflt | Some v \<Rightarrow> v)"

definition dict_item :: "('k \<times> 'v) list \<Rightarrow> 'k \<Rightarrow> py_error + 'v" where
  "dict_item d k = (case map_of d k of None \<Rightarrow> Inl KeyError | Some v \<Rightarrow> Inr v)"

definition get_scale_notes :: "string \<Rightarrow> string \<Rightarrow> int \<Rightarrow> py_error + int list" where
  "get_scale_notes rt md oct =
     (let root_midi = dict_get NOTE_MAP rt 60 + (oct - 4) * 12 in
      case dict_item SCALES ''major'' of
        Inl e \<Rightarrow> Inl e
      | Inr major \<Rightarrow>
          let scale_intervals = dict_get SCALES md major in
          Inr (map (\<lambda>interval. root_midi + interval) scale_intervals))"

section \<open>The random module\<close>

text \<open>
  Python's generator is not part of the repository. Its state is modelled by the
  infinite stream of raw draws still to come; \<open>random.seed\<close> is a parameter
  \<open>seed_rng\<close> of the functions that call it. Each primitive consumes draws and maps
  them onto its range, so every sequence of results the library can deliver is the
  image of some stream. A computation that draws random numbers takes the stream and
  returns an error or its result with the rest of the stream.
\<close>

type_synonym rng = "nat stream"

type_synonym 'a rand = "rng \<Rightarrow> py_error + ('a \<times> rng)"

definition returnR :: "'a \<Rightarrow> 'a rand" where
  "returnR x g = Inr (x, g)"

definition raiseR :: "py_error \<Rightarrow> 'a rand" where
  "raiseR e g = Inl e"

definition bindR :: "'a rand \<Rightarrow> ('a \<Rightarrow> 'b rand) \<Rightarrow> 'b rand" where
  "bindR m f g = (case m g of Inl e \<Rightarrow> Inl e | Inr (x, g') \<Rightarrow> f x g')"

definition liftE :: "py_error + 'a \<Rightarrow> 'a rand" where
  "liftE r g = (case r of Inl e \<Rightarrow> Inl e | Inr x \<Rightarrow> Inr (x, g))"

text \<open>\<open>random.random()\<close>: a multiple of \<open>2^-53\<close> in \<open>[0, 1)\<close>.\<close>

definition rnd_random :: "rat rand" where
  "rnd_random g = Inr (of_nat (shd g mod 2 ^ 53) / 2 ^ 53, stl g)"

text \<open>\<open>random.choice(seq)\<close>: IndexError on an empty sequence.\<close>

definition rnd_choice :: "'a list \<Rightarrow> 'a rand" where
  "rnd_choice xs g =
     (if xs = [] then Inl IndexError else Inr (xs ! (shd g mod length xs), stl g))"

text \<open>\<open>random.randint(a, b)\<close>: ValueError on an empty range.\<close>

definition rnd_randint :: "int \<Rightarrow> int \<Rightarrow> int rand" where
  "rnd_randint a b g =
     (if b < a then Inl ValueError
      else Inr (a + int (shd g mod nat (b - a + 1)), stl g))"

text \<open>
  \<open>random.sample(population, k)\<close>: \<open>k\<close> elements at distinct positions, in the order
  of selection (the pool algorithm: the selected slot is refilled with the last
  element of the pool); ValueError when \<open>k\<close> is negative or larger than the
  population.
\<close>

fun sample_pool :: "'a list \<Rightarrow> nat \<Rightarrow> 'a list rand" where
  "sample_pool pool 0 g = Inr ([], g)"
| "sample_pool pool (Suc k) g =
     (if pool = [] then Inl ValueError
      else
        let j = shd g mod length pool in
        case sample_pool (butlast (pool[j := last pool])) k (stl g) of
          Inl e \<Rightarrow> Inl e
        | Inr (xs, g') \<Rightarrow> Inr (pool ! j # xs, g'))"

definition rnd_sample :: "'a list \<Rightarrow> int \<Rightarrow> 'a list rand" where
  "rnd_sample population k g =
     (if k < 0 \<or> int (length population) < k then Inl ValueError
      else sample_pool population (nat k) g)"

section \<open>Contours\<close>

text \<open>\<open>[random.choice(xs) for _ in range(n)]\<close>\<close>

fun choices :: "'a list \<Rightarrow> nat \<Rightarrow> 'a list rand" where
  "choices xs 0 = returnR []"
| "choices xs (Suc n) =
     bindR (rnd_choice xs) (\<lambda>x. bindR (choices xs n) (\<lambda>rest. returnR (x # rest)))"

text \<open>The loop of the WAVE branch: \<open>i\<close> is the loop index, \<open>n\<close> the rounds left.\<close>

fun wave_loop :: "nat \<Rightarrow> nat \<Rightarrow> int \<Rightarrow> int list rand" where
  "wave_loop i 0 direction = returnR []"
| "wave_loop i (Suc n) direction =
     (let direction' = (if i mod 3 = 0 then direction * (- 1) else direction) in
      bindR (rnd_choice [1, 2]) (\<lambda>c.
      bindR (wave_loop (Suc i) n direction') (\<lambda>rest.
      returnR (direction' * c # rest))))"

text \<open>\<open>range(n)\<close> of a negative \<open>n\<close> is empty: \<open>nat\<close> maps it to 0 rounds.\<close>

definition generate_contour :: "Contour \<Rightarrow> int \<Rightarrow> int list rand" where
  "generate_contour contour_type len =
     (case contour_type of
        ARCH \<Rightarrow>
          (let mid = len div 2 in
           bindR (choices [1, 2, 3] (nat mid)) (\<lambda>rise.
           bindR (choices [- 1, - 2, - 3] (nat (len - mid))) (\<lambda>fall.
           returnR (rise @ fall))))
      | DESCENDING \<Rightarrow> choices [- 1, - 2, 0, - 1] (nat len)
      | ASCENDING \<Rightarrow> choices [1, 2, 0, 1] (nat len)
      | WAVE \<Rightarrow> wave_loop 0 (nat len) 1
      | STATIC \<Rightarrow> choices [- 1, 0, 1, 0] (nat len))"

section \<open>Motifs\<close>

text \<open>
  \<open>min(scale, key=lambda x: abs(x - target))\<close>: the first element at the least
  distance; ValueError on an empty scale.
\<close>

fun closest_from :: "int \<Rightarrow> int \<Rightarrow> int list \<Rightarrow> int" where
  "closest_from target best [] = best"
| "closest_from target best (x # xs) =
     closest_from target (if \<bar>x - target\<bar> < \<bar>best - target\<bar> then x else best) xs"

definition snap_to_scale :: "int list \<Rightarrow> int \<Rightarrow> py_error + int" where
  "snap_to_scale scale target =
     (case scale of [] \<Rightarrow> Inl ValueError | x # xs \<Rightarrow> Inr (closest_from target x xs))"

fun generate_motif_loop ::
  "int list \<Rightarrow> MelodyParams \<Rightarrow> int list \<Rightarrow> int \<Rightarrow> rat \<Rightarrow> MelodyNote list rand" where
  "generate_motif_loop scale ps [] current_pitch current_time = returnR []"
| "generate_motif_loop scale ps (interval # rest) current_pitch current_time =
     (let target_pitch = current_pitch + interval in
      bindR (liftE (snap_to_scale scale target_pitch)) (\<lambda>closest_scale_pitch.
      bindR rnd_random (\<lambda>r1.
      let p = (if r1 < 1 / 10 then target_pitch else closest_scale_pitch) in
      bindR rnd_random (\<lambda>r2.
      bindR (if r2 < syncopation ps then rnd_choice [1 / 2, 3 / 4]
             else rnd_choice [1 / 2, 1, 3 / 2]) (\<lambda>d.
      bindR (rnd_randint (fst (velocity_range ps)) (snd (velocity_range ps))) (\<lambda>v.
      bindR (generate_motif_loop scale ps rest p (current_time + d)) (\<lambda>ns.
      returnR (\<lparr>pitch = p, start_time = current_time, duration = d * legato ps,
                velocity = v\<rparr> # ns))))))))"

definition generate_motif ::
  "int list \<Rightarrow> int \<Rightarrow> int \<Rightarrow> Contour \<Rightarrow> MelodyParams \<Rightarrow> Motif rand" where
  "generate_motif scale start_pitch len contour_type ps =
     bindR (generate_contour contour_type len) (\<lambda>c.
     bindR (generate_motif_loop scale ps c start_pitch 0) (\<lambda>ns.
     returnR \<lparr>motif_notes = ns, motif_contour = c\<rparr>))"

text \<open>
  The pitch of note \<open>i\<close> of a development. \<open>new_notes\<close> are the notes built so far;
  for \<open>i > 0\<close> both \<open>motif.notes[i-1]\<close> and \<open>new_notes[-1]\<close> exist.
\<close>

definition develop_pitch ::
  "Motif \<Rightarrow> MotifDevelopment \<Rightarrow> int list \<Rightarrow> int \<Rightarrow> nat \<Rightarrow> MelodyNote \<Rightarrow>
   MelodyNote list \<Rightarrow> int rand" where
  "develop_pitch motif development scale transposition i note new_notes =
     (case development of
        TRANSPOSED \<Rightarrow> liftE (snap_to_scale scale (pitch note + transposition))
      | INVERTED \<Rightarrow>
          returnR (if i > 0
                   then pitch (last new_notes)
                        - (pitch note - pitch (motif_notes motif ! (i - 1)))
                   else pitch note)
      | VARIED \<Rightarrow>
          bindR rnd_random (\<lambda>r.
          if r < 3 / 10
          then bindR (rnd_choice [- 2, - 1, 1, 2]) (\<lambda>d.
               liftE (snap_to_scale scale (pitch note + d)))
          else returnR (pitch note))
      | _ \<Rightarrow> returnR (pitch note))"

definition develop_duration :: "MotifDevelopment \<Rightarrow> MelodyNote \<Rightarrow> rat" where
  "develop_duration development note =
     (case development of
        AUGMENTED \<Rightarrow> duration note * (3 / 2)
      | DIMINISHED \<Rightarrow> duration note * (3 / 4)
      | _ \<Rightarrow> duration note)"

fun develop_loop ::
  "Motif \<Rightarrow> MotifDevelopment \<Rightarrow> int list \<Rightarrow> rat \<Rightarrow> int \<Rightarrow> nat \<Rightarrow> MelodyNote list \<Rightarrow>
   MelodyNote list \<Rightarrow> MelodyNote list rand" where
  "develop_loop motif development scale start transposition i [] new_notes =
     returnR new_notes"
| "develop_loop motif development scale start transposition i (note # rest) new_notes =
     bindR (develop_pitch motif development scale transposition i note new_notes)
       (\<lambda>new_pitch.
        develop_loop motif development scale start transposition (Suc i) rest
          (new_notes @
           [\<lparr>pitch = new_pitch,
             start_time = start + (start_time note - start_time (motif_notes motif ! 0)),
             duration = develop_duration development note,
             velocity = velocity note\<rparr>]))"

text \<open>The second loop of the RETROGRADE branch: start times from the durations.\<close>

fun retime :: "rat \<Rightarrow> MelodyNote list \<Rightarrow> MelodyNote list" where
  "retime current_time [] = []"
| "retime current_time (note # rest) =
     note\<lparr>start_time := current_time\<rparr> # retime (current_time + duration note) rest"

definition develop_motif ::
  "Motif \<Rightarrow> MotifDevelopment \<Rightarrow> int list \<Rightarrow> rat \<Rightarrow> int \<Rightarrow> Motif rand" where
  "develop_motif motif development scale start transposition =
     bindR (develop_loop motif development scale start transposition 0
              (motif_notes motif) [])
       (\<lambda>new_notes.
        returnR \<lparr>motif_notes = (if development = RETROGRADE
                                then retime start (rev new_notes) else new_notes),
                 motif_contour = motif_contour motif\<rparr>)"

section \<open>The identity hash of a motif\<close>

text \<open>\<open>str\<close> of an integer and of a list of integers, as Python prints them.\<close>

fun str_nat :: "nat \<Rightarrow> string" where
  "str_nat n =
     (if n < 10 then [''0123456789'' ! n]
      else str_nat (n div 10) @ [''0123456789'' ! (n mod 10)])"

definition str_int :: "int \<Rightarrow> string" where
  "str_int i = (if i < 0 then CHR ''-'' # str_nat (nat (- i)) else str_nat (nat i))"

fun join_comma :: "string list \<Rightarrow> string" where
  "join_comma [] = []"
| "join_comma [s] = s"
| "join_comma (s # t # rest) = s @ '', '' @ join_comma (t # rest)"

definition str_int_list :: "int list \<Rightarrow> string" where
  "str_int_list xs = ''['' @ join_comma (map str_int xs) @ '']''"

text \<open>The loop of \<open>Motif.get_hash\<close>: the pitch differences of neighbouring notes.\<close>

definition intervals :: "Motif \<Rightarrow> int list" where
  "intervals m =
     map (\<lambda>i. pitch (motif_notes m ! i) - pitch (motif_notes m ! (i - 1)))
       [1..<length (motif_notes m)]"

text \<open>
  \<open>hashlib.md5(...).hexdigest()\<close> belongs to the standard library and is the
  parameter \<open>md5_hexdigest\<close>.
\<close>

definition get_hash :: "(string \<Rightarrow> string) \<Rightarrow> Motif \<Rightarrow> string" where
  "get_hash md5_hexdigest m = take 8 (md5_hexdigest (str_int_list (intervals m)))"

section \<open>Uniqueness\<close>

text \<open>The inner loop of \<open>calculate_uniqueness\<close>: the three intervals of window \<open>i\<close>.\<close>

definition window_pattern :: "MelodyNote list \<Rightarrow> nat \<Rightarrow> int list" where
  "window_pattern ns i = map (\<lambda>j. pitch (ns ! (i + j + 1)) - pitch (ns ! (i + j))) [0..<3]"

definition calculate_uniqueness :: "Melody \<Rightarrow> rat" where
  "calculate_uniqueness melody =
     (if length (melody_notes melody) < 4 then 1
      else
        let patterns =
              map (window_pattern (melody_notes melody)) [0..<length (melody_notes melody) - 3]
        in if patterns = [] then 1
           else of_nat (card (set patterns)) / of_nat (length patterns))"

section \<open>The optimizer\<close>

text \<open>The body of the loop over \<open>indices\<close>: one note gets a new pitch on the scale.\<close>

definition vary_note :: "int list \<Rightarrow> MelodyNote list \<Rightarrow> nat \<Rightarrow> MelodyNote list rand" where
  "vary_note scale ns idx =
     (let note = ns ! idx in
      bindR (rnd_choice [- 2, - 1, 1, 2]) (\<lambda>d.
      bindR (liftE (snap_to_scale scale (pitch note + d))) (\<lambda>new_pitch.
      returnR (ns[idx := \<lparr>pitch = new_pitch, start_time = start_time note,
                           duration = duration note, velocity = velocity note\<rparr>]))))"

fun vary_notes :: "int list \<Rightarrow> nat list \<Rightarrow> MelodyNote list \<Rightarrow> MelodyNote list rand" where
  "vary_notes scale [] ns = returnR ns"
| "vary_notes scale (idx # indices) ns =
     bindR (vary_note scale ns idx) (\<lambda>ns'. vary_notes scale indices ns')"

text \<open>
  One variation, as the loop body builds it: the note list that is copied is the one
  of the argument \<open>melody\<close> of \<open>optimize_melody\<close>.
\<close>

definition new_variation :: "Melody \<Rightarrow> int list \<Rightarrow> Melody rand" where
  "new_variation melody scale =
     (let n = int (length (melody_notes melody)) in
      bindR (rnd_randint 1 (max 1 (n div 4))) (\<lambda>num_changes.
      bindR (rnd_sample [0..<length (melody_notes melody)] (min num_changes n)) (\<lambda>indices.
      bindR (vary_notes scale indices (melody_notes melody)) (\<lambda>ns.
      returnR \<lparr>melody_notes = ns, motifs = motifs melody, params = params melody,
               uniqueness_score = 0\<rparr>))))"

fun optimize_loop :: "Melody \<Rightarrow> int list \<Rightarrow> nat \<Rightarrow> Melody \<Rightarrow> rat \<Rightarrow> (Melody \<times> rat) rand" where
  "optimize_loop melody scale 0 best_melody best_score = returnR (best_melody, best_score)"
| "optimize_loop melody scale (Suc n) best_melody best_score =
     bindR (new_variation melody scale) (\<lambda>new_melody.
     let new_score = calculate_uniqueness new_melody in
     if new_score > best_score
     then optimize_loop melody scale n new_melody new_score
     else bindR rnd_random (\<lambda>r.
          if r < 1 / 10
          then optimize_loop melody scale n new_melody new_score
          else optimize_loop melody scale n best_melody best_score))"

definition optimize_melody :: "Melody \<Rightarrow> int \<Rightarrow> Melody rand" where
  "optimize_melody melody max_iterations =
     (let best_score = calculate_uniqueness melody in
      bindR (liftE (get_scale_notes (root_note (params melody)) (mode (params melody))
                      (octave (params melody)))) (\<lambda>scale.
      bindR (optimize_loop melody scale (nat max_iterations) melody best_score) (\<lambda>(b, s).
      returnR (b\<lparr>uniqueness_score := s\<rparr>))))"

section \<open>The assembler (generate_melody)\<close>

text \<open>
  The local variables of \<open>generate_melody\<close> that its loop changes. \<open>allocated\<close>
  counts the motif objects built so far and gives the next one its identity.
\<close>

record assembler =
  melody :: Melody
  current_time :: rat
  motifs_used :: "motif_ref list"
  pattern_counts :: "string \<rightharpoonup> int"
  allocated :: nat

text \<open>\<open>xs[i]\<close> for an index \<open>i \<ge> 0\<close>.\<close>

definition list_item :: "'a list \<Rightarrow> nat \<Rightarrow> py_error + 'a" where
  "list_item xs i = (if i < length xs then Inr (xs ! i) else Inl IndexError)"

text \<open>
  The first half of the loop body: the motif of this round, developed from a motif
  of the pool or generated (and then added to the pool). The conjunction is
  evaluated left to right, so \<open>random.random()\<close> is drawn only if motifs are in use
  and the pool is not empty.
\<close>

definition next_motif :: "MelodyParams \<Rightarrow> int list \<Rightarrow> assembler \<Rightarrow> (motif_ref \<times> assembler) rand" where
  "next_motif ps scale st =
     bindR (if use_motifs ps \<and> motifs_used st \<noteq> []
            then bindR rnd_random (\<lambda>r. returnR (r < development_probability ps))
            else returnR False) (\<lambda>develop.
     if develop then
       bindR (rnd_choice (motifs_used st)) (\<lambda>source_motif.
       bindR (rnd_choice [EXACT, TRANSPOSED, INVERTED, RETROGRADE, AUGMENTED, DIMINISHED,
                          VARIED]) (\<lambda>development.
       bindR (if development = TRANSPOSED then rnd_choice [0, 2, 4, 5, 7]
              else returnR 0) (\<lambda>transposition.
       bindR (develop_motif (snd source_motif) development scale (current_time st)
                transposition) (\<lambda>motif.
       returnR ((allocated st, motif), st\<lparr>allocated := Suc (allocated st)\<rparr>)))))
     else
       bindR rnd_random (\<lambda>r.
       bindR (if r < 3 / 10 then rnd_choice [ARCH, DESCENDING, ASCENDING, WAVE, STATIC]
              else returnR (contour ps)) (\<lambda>c.
       bindR (liftE (if melody_notes (melody st) \<noteq> []
                     then Inr (pitch (last (melody_notes (melody st))))
                     else list_item scale 2)) (\<lambda>start_pitch.
       bindR (generate_motif scale start_pitch (motif_length ps) c ps) (\<lambda>motif.
       returnR ((allocated st, motif),
                st\<lparr>motifs_used := motifs_used st @ [(allocated st, motif)],
                   allocated := Suc (allocated st)\<rparr>))))))"

text \<open>
  The second half of the loop body: the ledger, the repetition limit, the notes
  moved to the current position, and the step forward in time.
\<close>

definition adjusted_note :: "rat \<Rightarrow> Motif \<Rightarrow> MelodyNote \<Rightarrow> MelodyNote" where
  "adjusted_note t motif note =
     \<lparr>pitch = pitch note,
      start_time = t + (start_time note - start_time (motif_notes motif ! 0)),
      duration = duration note,
      velocity = velocity note\<rparr>"

definition place_motif ::
  "(string \<Rightarrow> string) \<Rightarrow> MelodyParams \<Rightarrow> motif_ref \<Rightarrow> assembler \<Rightarrow> assembler" where
  "place_motif md5_hexdigest ps r st =
     (let motif = snd r;
          motif_hash = get_hash md5_hexdigest motif;
          n = (case pattern_counts st motif_hash of None \<Rightarrow> 0 | Some c \<Rightarrow> c) + 1;
          m = melody st;
          m' = (if n \<le> max_repetition ps
                then m\<lparr>melody_notes :=
                         melody_notes m @ map (adjusted_note (current_time st) motif)
                                            (motif_notes motif),
                       motifs := motifs m @ [r]\<rparr>
                else m);
          motif_duration = sum_list (map duration (motif_notes motif))
      in st\<lparr>melody := m',
            pattern_counts := (pattern_counts st)(motif_hash \<mapsto> n),
            current_time :=
              current_time st + max motif_duration (of_int (fst (time_signature ps)))\<rparr>)"

definition assemble_step ::
  "(string \<Rightarrow> string) \<Rightarrow> MelodyParams \<Rightarrow> int list \<Rightarrow> assembler \<Rightarrow> assembler rand" where
  "assemble_step md5_hexdigest ps scale st =
     bindR (next_motif ps scale st) (\<lambda>(r, st'). returnR (place_motif md5_hexdigest ps r st'))"

text \<open>
  The while loop. Nothing bounds the number of its rounds (a measure of zero beats
  with motifs of no duration never advances), so not returning is the value \<open>None\<close>.
\<close>

partial_function (option) assemble ::
  "(string \<Rightarrow> string) \<Rightarrow> MelodyParams \<Rightarrow> int list \<Rightarrow> int \<Rightarrow> assembler \<Rightarrow> rng \<Rightarrow>
   (py_error + assembler \<times> rng) option" where
  "assemble md5_hexdigest ps scale total_beats st g =
     (if current_time st < of_int total_beats
      then (case assemble_step md5_hexdigest ps scale st g of
              Inl e \<Rightarrow> Some (Inl e)
            | Inr (st', g') \<Rightarrow> assemble md5_hexdigest ps scale total_beats st' g')
      else Some (Inr (st, g)))"

text \<open>\<open>int(a / b)\<close> for integers \<open>a\<close> and \<open>b > 0\<close>: the quotient, rounded towards zero.\<close>

definition int_of_quotient :: "int \<Rightarrow> int \<Rightarrow> int" where
  "int_of_quotient a b = (if a < 0 then - ((- a) div b) else a div b)"

definition initial_assembler :: "MelodyParams \<Rightarrow> Motif \<Rightarrow> assembler" where
  "initial_assembler ps initial_motif =
     \<lparr>melody = \<lparr>melody_notes = [], motifs = [], params = ps, uniqueness_score = 0\<rparr>,
      current_time = 0,
      motifs_used = [(0, initial_motif)],
      pattern_counts = Map.empty,
      allocated = 1\<rparr>"

definition generate_melody ::
  "(int \<Rightarrow> rng) \<Rightarrow> (string \<Rightarrow> string) \<Rightarrow> MelodyParams \<Rightarrow> int option \<Rightarrow> rng \<Rightarrow>
   (py_error + Melody \<times> rng) option" where
  "generate_melody seed_rng md5_hexdigest ps seed g =
     (let g0 = (case seed of None \<Rightarrow> g | Some s \<Rightarrow> seed_rng s) in
      case get_scale_notes (root_note ps) (mode ps) (octave ps) of
        Inl e \<Rightarrow> Some (Inl e)
      | Inr scale \<Rightarrow>
          let total_beats = int_of_quotient (duration_seconds ps * tempo ps) 60 in
          case bindR (liftE (list_item scale 2)) (\<lambda>start_pitch.
                 generate_motif scale start_pitch (motif_length ps) (contour ps) ps) g0 of
            Inl e \<Rightarrow> Some (Inl e)
          | Inr (initial_motif, g1) \<Rightarrow>
              (case assemble md5_hexdigest ps scale total_beats
                      (initial_assembler ps initial_motif) g1 of
                 None \<Rightarrow> None
               | Some (Inl e) \<Rightarrow> Some (Inl e)
               | Some (Inr (st, g2)) \<Rightarrow> Some (optimize_melody (melody st) 10 g2)))"

section \<open>Genre presets\<close>

text \<open>
  \<open>GENRE_PRESETS\<close> is a module-level dictionary of MelodyParams objects: shared
  state, which \<open>generate_melody_for_genre\<close> reads and writes. The dictionary is the
  store: a key stands for the object kept under it.
\<close>

definition GENRE_PRESETS :: "string \<rightharpoonup> MelodyParams" where
  "GENRE_PRESETS = map_of
     [(''relaxation'',
       default_params\<lparr>tempo := 65, mode := ''major'', contour := ARCH, note_density := 4 / 10,
                      syncopation := 1 / 10, velocity_range := (40, 65), legato := 9 / 10\<rparr>),
      (''ambient'',
       default_params\<lparr>tempo := 60, mode := ''dorian'', contour := WAVE, note_density := 3 / 10,
                      syncopation := 2 / 10, velocity_range := (35, 55), legato := 1\<rparr>),
      (''meditation'',
       default_params\<lparr>tempo := 50, mode := ''pentatonic_major'', contour := STATIC,
                      note_density := 2 / 10, syncopation := 5 / 100,
                      velocity_range := (30, 50), legato := 1\<rparr>),
      (''lofi'',
       default_params\<lparr>tempo := 75, mode := ''minor'', contour := DESCENDING,
                      note_density := 5 / 10, syncopation := 4 / 10,
                      velocity_range := (50, 75), legato := 7 / 10\<rparr>),
      (''classical'',
       default_params\<lparr>tempo := 80, mode := ''major'', contour := ARCH, note_density := 6 / 10,
                      syncopation := 15 / 100, velocity_range := (45, 90), legato := 8 / 10,
                      use_motifs := True, development_probability := 7 / 10\<rparr>)]"

text \<open>
  The result is the store after the call, paired with what \<open>generate_melody\<close>
  returns. The two assignments change the preset object itself: the object found
  under \<open>genre\<close>, or the one under \<open>relaxation\<close> when there is none.
\<close>

definition generate_melody_for_genre ::
  "(int \<Rightarrow> rng) \<Rightarrow> (string \<Rightarrow> string) \<Rightarrow> (string \<rightharpoonup> MelodyParams) \<Rightarrow> string \<Rightarrow> int \<Rightarrow> string \<Rightarrow>
   int option \<Rightarrow> rng \<Rightarrow>
   py_error + (string \<rightharpoonup> MelodyParams) \<times> (py_error + Melody \<times> rng) option" where
  "generate_melody_for_genre seed_rng md5_hexdigest presets genre duration_secs rt seed g =
     (case presets ''relaxation'' of
        None \<Rightarrow> Inl KeyError
      | Some relaxation \<Rightarrow>
          let key = (case presets genre of None \<Rightarrow> ''relaxation'' | Some _ \<Rightarrow> genre);
              ps = (case presets genre of None \<Rightarrow> relaxation | Some p \<Rightarrow> p);
              ps' = ps\<lparr>duration_seconds := duration_secs, root_note := rt\<rparr>
          in Inr (presets(key \<mapsto> ps'),
                  generate_melody seed_rng md5_hexdigest ps' seed g))"

section \<open>Notions used in the statements\<close>

text \<open>
  The words of the specification of the uniqueness score: the interval between
  note \<open>i\<close> and its successor, and the set of distinct interval triples over all
  sliding windows of four notes.
\<close>

definition interval_at :: "MelodyNote list \<Rightarrow> nat \<Rightarrow> int" where
  "interval_at ns i = pitch (ns ! Suc i) - pitch (ns ! i)"

definition distinct_windows :: "MelodyNote list \<Rightarrow> (int \<times> int \<times> int) set" where
  "distinct_windows ns =
     (\<lambda>i. (interval_at ns i, interval_at ns (i + 1), interval_at ns (i + 2))) `
       {i. i + 3 < length ns}"

text \<open>The interval signature of a list of pitches.\<close>

definition pitch_intervals :: "int list \<Rightarrow> int list" where
  "pitch_intervals ps = map (\<lambda>i. ps ! i - ps ! (i - 1)) [1..<length ps]"

text \<open>
  \<open>acc\<close> is a prefix of the inversion of \<open>ns\<close>: the first pitch is kept, every later
  pitch leaves its predecessor by the negated interval of the original.
\<close>

definition inverted_of :: "MelodyNote list \<Rightarrow> MelodyNote list \<Rightarrow> bool" where
  "inverted_of ns acc =
     list_all (\<lambda>j. pitch (acc ! j) =
                 (if j = 0 then pitch (ns ! 0)
                  else pitch (acc ! (j - 1)) - (pitch (ns ! j) - pitch (ns ! (j - 1)))))
       [0..<length acc]"

text \<open>A motif of two notes of the same pitch, one after the other.\<close>

definition repeated_note_motif :: Motif where
  "repeated_note_motif =
     \<lparr>motif_notes = [\<lparr>pitch = 60, start_time = 0, duration = 1 / 2, velocity = 64\<rparr>,
                     \<lparr>pitch = 60, start_time = 1 / 2, duration = 1 / 2, velocity = 64\<rparr>],
      motif_contour = [0]\<rparr>"

text \<open>
  What the optimizer may do to a note: everything but the pitch stays, and the pitch
  stays or lands on the scale. \<open>scale_of\<close> is the scale the optimizer derives from the
  parameters of the melody.
\<close>

definition same_but_pitch :: "int list \<Rightarrow> MelodyNote \<Rightarrow> MelodyNote \<Rightarrow> bool" where
  "same_but_pitch scale a b \<longleftrightarrow>
     start_time b = start_time a \<and> duration b = duration a \<and> velocity b = velocity a \<and>
     (pitch b = pitch a \<or> pitch b \<in> set scale)"

definition scale_of :: "Melody \<Rightarrow> int list" where
  "scale_of m =
     (case get_scale_notes (root_note (params m)) (mode (params m)) (octave (params m)) of
        Inl e \<Rightarrow> [] | Inr scale \<Rightarrow> scale)"

(* END OF DEFINITIONS *)


section \<open>Rules for evaluating the model on concrete inputs\<close>

text \<open>
  The simplifier evaluates a monadic computation step by step when it leaves the
  continuation of a bind alone until the value bound is known.
\<close>

lemma bindR_weak_cong: "m = m' \<Longrightarrow> bindR m f = bindR m' f"
  by simp

lemmas eval_congs = bindR_weak_cong let_weak_cong prod.case_cong_weak

lemmas rand_defs = returnR_def raiseR_def bindR_def liftE_def rnd_random_def rnd_choice_def
  rnd_randint_def rnd_sample_def

section \<open>Scales\<close>

text \<open>
  C6. \<open>get_scale_notes\<close> returns a list for every root, mode and octave. A root that
  is not a key of \<open>NOTE_MAP\<close> behaves as C, a mode that is not a key of \<open>SCALES\<close>
  behaves as major, and both the unknown pair (Z, bogus) and (C, major) in octave 4
  give the pitches 60, 62, 64, 65, 67, 69, 71.
\<close>

theorem get_scale_notes_fail_soft:
  "(\<exists>ns. get_scale_notes rt md oct = Inr ns) \<and>
   (map_of NOTE_MAP rt = None \<longrightarrow> get_scale_notes rt md oct = get_scale_notes ''C'' md oct) \<and>
   (map_of SCALES md = None \<longrightarrow> get_scale_notes rt md oct = get_scale_notes rt ''major'' oct) \<and>
   get_scale_notes ''Z'' ''bogus'' 4 = Inr [60, 62, 64, 65, 67, 69, 71] \<and>
   get_scale_notes ''C'' ''major'' 4 = Inr [60, 62, 64, 65, 67, 69, 71]"
  by (simp add: get_scale_notes_def dict_get_def dict_item_def NOTE_MAP_def SCALES_def)

theorem get_scale_notes_fail_soft_witness:
  "map_of NOTE_MAP ''Z'' = None \<and> map_of SCALES ''bogus'' = None \<and>
   get_scale_notes ''Z'' ''bogus'' 4 = get_scale_notes ''C'' ''bogus'' 4 \<and>
   get_scale_notes ''Z'' ''bogus'' 4 = get_scale_notes ''Z'' ''major'' 4"
proof -
  have a: "map_of NOTE_MAP ''Z'' = None" by (simp add: NOTE_MAP_def)
  have b: "map_of SCALES ''bogus'' = None" by (simp add: SCALES_def)
  note t = get_scale_notes_fail_soft [of "''Z''" "''bogus''" 4]
  from t a have e1: "get_scale_notes ''Z'' ''bogus'' 4 = get_scale_notes ''C'' ''bogus'' 4"
    by (simp only: simp_thms)
  from t b have e2: "get_scale_notes ''Z'' ''bogus'' 4 = get_scale_notes ''Z'' ''major'' 4"
    by (simp only: simp_thms)
  from a b e1 e2 show ?thesis
    by (intro conjI)
qed

section \<open>Determinism\<close>

text \<open>
  C1. With an explicit seed, the result of \<open>generate_melody\<close> (the melody with its
  notes and its uniqueness score, or the error) does not depend on the state the
  random generator was in before the call: two invocations with the same parameters
  and the same seed return the same value.
\<close>

theorem generate_melody_deterministic:
  "generate_melody seed_rng md5_hexdigest ps (Some s) g1 =
   generate_melody seed_rng md5_hexdigest ps (Some s) g2"
  by (simp add: generate_melody_def)

section \<open>Genre presets\<close>

text \<open>
  C5. The claim is that no parameter record is ever changed. The code assigns to
  the preset it has looked up: after \<open>generate_melody_for_genre\<close> for lofi with a
  duration of 30 seconds and root D, the preset stored under lofi has these two
  values instead of 60 and C.
\<close>

theorem generate_melody_for_genre_overwrites_preset:
  "\<exists>store r.
     generate_melody_for_genre seed_rng md5_hexdigest GENRE_PRESETS ''lofi'' 30 ''D'' seed g
       = Inr (store, r) \<and>
     map_option duration_seconds (GENRE_PRESETS ''lofi'') = Some 60 \<and>
     map_option root_note (GENRE_PRESETS ''lofi'') = Some ''C'' \<and>
     map_option duration_seconds (store ''lofi'') = Some 30 \<and>
     map_option root_note (store ''lofi'') = Some ''D''"
  by (simp add: generate_melody_for_genre_def GENRE_PRESETS_def default_params_def Let_def)

section \<open>The uniqueness score\<close>

lemma window_pattern_eq:
  "window_pattern ns i = [interval_at ns i, interval_at ns (i + 1), interval_at ns (i + 2)]"
  by (simp add: window_pattern_def interval_at_def upt_rec [of 0] upt_rec [of 1] upt_rec [of 2]
        upt_rec [of "Suc 0"] numeral_3_eq_3 numeral_2_eq_2)

lemma card_windows:
  "card (set (map (window_pattern ns) [0..<length ns - 3])) = card (distinct_windows ns)"
proof -
  let ?t = "\<lambda>(a, b, c). [a, b, c :: int]"
  have "set (map (window_pattern ns) [0..<length ns - 3]) = ?t ` distinct_windows ns"
    by (auto simp: distinct_windows_def window_pattern_eq image_iff less_diff_conv)
  moreover have "inj_on ?t (distinct_windows ns)"
    by (auto simp: inj_on_def)
  ultimately show ?thesis
    by (simp add: card_image)
qed

text \<open>
  C4. For fewer than four notes \<open>calculate_uniqueness\<close> returns 1; otherwise it
  returns the number of distinct interval triples over the \<open>n - 3\<close> windows of four
  notes, divided by \<open>n - 3\<close>; the result always lies between 0 and 1.
\<close>

theorem calculate_uniqueness_value:
  "calculate_uniqueness m =
     (if length (melody_notes m) < 4 then 1
      else of_nat (card (distinct_windows (melody_notes m))) /
           of_nat (length (melody_notes m) - 3)) \<and>
   0 \<le> calculate_uniqueness m \<and> calculate_uniqueness m \<le> 1"
proof -
  let ?n = "length (melody_notes m)"
  let ?c = "card (distinct_windows (melody_notes m))"
  have eq: "calculate_uniqueness m = (if ?n < 4 then 1 else of_nat ?c / of_nat (?n - 3))"
    unfolding calculate_uniqueness_def Let_def card_windows by simp
  have le: "?c \<le> ?n - 3"
    using card_length [of "map (window_pattern (melody_notes m)) [0..<?n - 3]"]
    unfolding card_windows by simp
  have b: "0 \<le> calculate_uniqueness m \<and> calculate_uniqueness m \<le> 1"
  proof (cases "?n < 4")
    case True
    then show ?thesis by (simp add: eq)
  next
    case False
    then have pos: "0 < ?n - 3" by simp
    have "(of_nat ?c :: rat) \<le> of_nat (?n - 3)"
      using le by (simp only: of_nat_le_iff)
    with pos False show ?thesis
      by (simp add: eq divide_le_eq_1)
  qed
  from eq b show ?thesis by (simp only: simp_thms)
qed

section \<open>Development and the interval signature\<close>

lemma intervals_pitch: "intervals m = pitch_intervals (map pitch (motif_notes m))"
  by (auto simp: intervals_def pitch_intervals_def)

lemma length_pitch_intervals: "length (pitch_intervals ps) = length ps - 1"
  by (simp add: pitch_intervals_def)

lemma pitch_intervals_nth:
  assumes "Suc i < length ps"
  shows "pitch_intervals ps ! i = ps ! Suc i - ps ! i"
proof -
  from assms have "[1..<length ps] ! i = Suc i"
    using nth_upt [of 1 i "length ps"] by simp
  with assms show ?thesis
    by (simp add: pitch_intervals_def)
qed

lemma pitch_intervals_rev: "pitch_intervals (rev ps) = rev (map uminus (pitch_intervals ps))"
proof (rule nth_equalityI)
  show "length (pitch_intervals (rev ps)) = length (rev (map uminus (pitch_intervals ps)))"
    by (simp add: length_pitch_intervals)
next
  fix i assume "i < length (pitch_intervals (rev ps))"
  then have i: "Suc i < length ps"
    by (simp add: length_pitch_intervals)
  define k where "k = length ps - Suc (Suc i)"
  from i have k: "Suc k < length ps" "length ps - Suc i = Suc k"
    "length (map uminus (pitch_intervals ps)) - Suc i = k"
    by (simp_all add: k_def length_pitch_intervals)
  from i have r1: "rev ps ! Suc i = ps ! k"
    by (simp add: rev_nth k_def)
  from i k(2) have r2: "rev ps ! i = ps ! Suc k"
    by (simp add: rev_nth)
  from i have "pitch_intervals (rev ps) ! i = rev ps ! Suc i - rev ps ! i"
    by (intro pitch_intervals_nth) simp
  then have l: "pitch_intervals (rev ps) ! i = ps ! k - ps ! Suc k"
    by (simp only: r1 r2)
  from i have "i < length (map uminus (pitch_intervals ps))"
    by (simp add: length_pitch_intervals)
  then have "rev (map uminus (pitch_intervals ps)) ! i = map uminus (pitch_intervals ps) ! k"
    by (simp only: rev_nth k(3))
  also from k(1) have "\<dots> = - (pitch_intervals ps ! k)"
    by (simp add: length_pitch_intervals)
  also from k(1) have "\<dots> = - (ps ! Suc k - ps ! k)"
    by (simp only: pitch_intervals_nth)
  finally show "pitch_intervals (rev ps) ! i = rev (map uminus (pitch_intervals ps)) ! i"
    using l by simp
qed

lemma retime_pitch: "map pitch (retime t ns) = map pitch ns"
  by (induction ns arbitrary: t) simp_all

lemma develop_loop_retro:
  "\<exists>res. develop_loop m RETROGRADE scale st tr i rest acc g = Inr (res, g) \<and>
         map pitch res = map pitch acc @ map pitch rest"
proof (induction rest arbitrary: i acc)
  case Nil
  then show ?case by (simp add: returnR_def)
next
  case (Cons x rest)
  let ?n = "\<lparr>pitch = pitch x, start_time = st + (start_time x - start_time (motif_notes m ! 0)),
             duration = develop_duration RETROGRADE x, velocity = velocity x\<rparr>"
  from Cons.IH [of "Suc i" "acc @ [?n]"] show ?case
    by (simp add: returnR_def bindR_def develop_pitch_def)
qed

lemma inverted_of_iff:
  "inverted_of ns acc \<longleftrightarrow>
     (\<forall>j < length acc. pitch (acc ! j) =
        (if j = 0 then pitch (ns ! 0) else pitch (acc ! (j - 1)) - (pitch (ns ! j) - pitch (ns ! (j - 1)))))"
  by (auto simp: inverted_of_def list_all_iff)

lemma develop_loop_inv:
  "inverted_of (motif_notes m) acc \<Longrightarrow> rest = drop (length acc) (motif_notes m) \<Longrightarrow> i = length acc \<Longrightarrow>
   \<exists>res. develop_loop m INVERTED scale st tr i rest acc g = Inr (res, g) \<and>
         inverted_of (motif_notes m) res \<and> length res = length acc + length rest"
proof (induction rest arbitrary: i acc)
  case Nil
  then show ?case by (simp add: returnR_def)
next
  case (Cons x rest)
  let ?ns = "motif_notes m"
  have lt: "length acc < length ?ns"
  proof (rule ccontr)
    assume "\<not> length acc < length ?ns"
    then have "drop (length acc) ?ns = []" by simp
    with Cons.prems(2) show False by simp
  qed
  have "x # rest = ?ns ! length acc # drop (Suc (length acc)) ?ns"
    by (rule trans [OF Cons.prems(2) Cons_nth_drop_Suc [OF lt, symmetric]])
  then have x: "x = ?ns ! length acc" and rest: "rest = drop (Suc (length acc)) ?ns"
    by simp_all
  let ?p = "if 0 < length acc then pitch (last acc) - (pitch x - pitch (?ns ! (length acc - 1))) else pitch x"
  let ?n = "\<lparr>pitch = ?p, start_time = st + (start_time x - start_time (?ns ! 0)),
             duration = develop_duration INVERTED x, velocity = velocity x\<rparr>"
  have inv: "inverted_of ?ns (acc @ [?n])"
    unfolding inverted_of_iff
  proof (intro allI impI)
    fix j assume j: "j < length (acc @ [?n])"
    show "pitch ((acc @ [?n]) ! j) =
          (if j = 0 then pitch (?ns ! 0)
           else pitch ((acc @ [?n]) ! (j - 1)) - (pitch (?ns ! j) - pitch (?ns ! (j - 1))))"
    proof (cases "j < length acc")
      case True
      then have "(acc @ [?n]) ! j = acc ! j" "(acc @ [?n]) ! (j - 1) = acc ! (j - 1)"
        by (simp_all add: nth_append)
      moreover from Cons.prems(1) True
      have "pitch (acc ! j) =
          (if j = 0 then pitch (?ns ! 0)
           else pitch (acc ! (j - 1)) - (pitch (?ns ! j) - pitch (?ns ! (j - 1))))"
        unfolding inverted_of_iff by blast
      ultimately show ?thesis by (simp only:)
    next
      case False
      with j have jl: "j = length acc" by simp
      show ?thesis
      proof (cases "acc = []")
        case True
        with jl x show ?thesis by simp
      next
        case False
        then have "(acc @ [?n]) ! (length acc - 1) = last acc"
          by (simp add: nth_append last_conv_nth)
        with False jl x show ?thesis by simp
      qed
    qed
  qed
  from Cons.IH [OF inv, of "Suc i"] rest Cons.prems(3)
  obtain res where "develop_loop m INVERTED scale st tr (Suc i) rest (acc @ [?n]) g = Inr (res, g)"
    "inverted_of ?ns res" "length res = length (acc @ [?n]) + length rest"
    by auto
  then show ?case
    using Cons.prems(3) by (simp add: bindR_def returnR_def develop_pitch_def)
qed

lemma inverted_intervals:
  assumes "inverted_of ns res" "length res = length ns"
  shows "pitch_intervals (map pitch res) = map uminus (pitch_intervals (map pitch ns))"
proof (rule nth_equalityI)
  show "length (pitch_intervals (map pitch res)) = length (map uminus (pitch_intervals (map pitch ns)))"
    using assms by (simp add: length_pitch_intervals)
next
  fix i assume "i < length (pitch_intervals (map pitch res))"
  then have i: "Suc i < length res" by (simp add: length_pitch_intervals)
  with assms(1) have "pitch (res ! Suc i) = pitch (res ! i) - (pitch (ns ! Suc i) - pitch (ns ! i))"
    unfolding inverted_of_iff by (drule_tac x = "Suc i" in spec) simp
  with i assms(2) show "pitch_intervals (map pitch res) ! i = map uminus (pitch_intervals (map pitch ns)) ! i"
    by (simp add: pitch_intervals_nth length_pitch_intervals)
qed

lemma sig0:
  "(\<exists>m'. develop_motif m INVERTED scale st tr g = Inr (m', g) \<and>
          intervals m' = map uminus (intervals m)) \<and>
   (\<exists>m'. develop_motif m RETROGRADE scale st tr g = Inr (m', g) \<and>
          intervals m' = rev (map uminus (intervals m)))"
proof
  have "inverted_of (motif_notes m) []" by (simp add: inverted_of_iff)
  from develop_loop_inv [OF this, of "motif_notes m" 0 scale st tr g]
  obtain res where r: "develop_loop m INVERTED scale st tr 0 (motif_notes m) [] g = Inr (res, g)"
    "inverted_of (motif_notes m) res" "length res = length (motif_notes m)"
    by auto
  show "\<exists>m'. develop_motif m INVERTED scale st tr g = Inr (m', g) \<and>
          intervals m' = map uminus (intervals m)"
    using r inverted_intervals [OF r(2,3)]
    by (simp add: develop_motif_def bindR_def returnR_def intervals_pitch)
next
  from develop_loop_retro [of m scale st tr 0 "motif_notes m" "[]" g]
  obtain res where r: "develop_loop m RETROGRADE scale st tr 0 (motif_notes m) [] g = Inr (res, g)"
    "map pitch res = map pitch (motif_notes m)"
    by auto
  show "\<exists>m'. develop_motif m RETROGRADE scale st tr g = Inr (m', g) \<and>
          intervals m' = rev (map uminus (intervals m))"
  proof -
    have "map pitch (retime st (rev res)) = rev (map pitch (motif_notes m))"
      by (simp only: retime_pitch rev_map [symmetric] r(2))
    then show ?thesis
      using r(1) by (simp add: develop_motif_def bindR_def returnR_def intervals_pitch pitch_intervals_rev)
  qed
qed


text \<open>
  C7, as the code has it. Inversion negates every interval of the source and
  retrograde reverses and negates the interval sequence; the hash is taken from that
  sequence. So the signature differs from the source's exactly when the negated
  (or reversed and negated) sequence is another sequence than the original one, and
  the motif counts toward the source's bucket when it is the same.
\<close>

theorem develop_motif_signature:
  "(\<exists>m'. develop_motif m INVERTED scale st tr g = Inr (m', g) \<and>
          intervals m' = map uminus (intervals m) \<and>
          get_hash md5_hexdigest m' =
            take 8 (md5_hexdigest (str_int_list (map uminus (intervals m))))) \<and>
   (\<exists>m'. develop_motif m RETROGRADE scale st tr g = Inr (m', g) \<and>
          intervals m' = rev (map uminus (intervals m)) \<and>
          get_hash md5_hexdigest m' =
            take 8 (md5_hexdigest (str_int_list (rev (map uminus (intervals m))))))"
  using sig0 [of m scale st tr g] by (auto simp: get_hash_def)

text \<open>
  C7 as stated fails: a motif that repeats one pitch has the signature \<open>[0]\<close>, and
  both its inversion and its retrograde are the motif itself.
\<close>

theorem develop_motif_same_signature:
  "develop_motif repeated_note_motif INVERTED [60, 62] 0 0 (sconst 0)
     = Inr (repeated_note_motif, sconst 0) \<and>
   develop_motif repeated_note_motif RETROGRADE [60, 62] 0 0 (sconst 0)
     = Inr (repeated_note_motif, sconst 0) \<and>
   intervals repeated_note_motif = [0]"
  by (simp add: repeated_note_motif_def develop_motif_def develop_pitch_def develop_duration_def
        bindR_def returnR_def intervals_def upt_rec [of 1] cong: eval_congs)

section \<open>The optimizer changes pitches only\<close>

lemma closest_from_in: "closest_from t b xs \<in> set (b # xs)"
  by (induction xs arbitrary: b) auto

lemma snap_to_scale_ok:
  "scale \<noteq> [] \<Longrightarrow> \<exists>p. snap_to_scale scale t = Inr p \<and> p \<in> set scale"
  using closest_from_in [of t "hd scale" "tl scale"]
  by (cases scale) (simp_all add: snap_to_scale_def)

lemma get_scale_notes_ok:
  "\<exists>scale. get_scale_notes rt md oct = Inr scale \<and> 2 < length scale"
  by (simp add: get_scale_notes_def dict_get_def dict_item_def SCALES_def)

lemma sample_pool_ok:
  "k \<le> length pool \<Longrightarrow>
   \<exists>xs g'. sample_pool pool k g = Inr (xs, g') \<and> set xs \<subseteq> set pool"
proof (induction k arbitrary: pool g)
  case 0
  then show ?case by simp
next
  case (Suc k)
  then have ne: "pool \<noteq> []" by auto
  define j where "j = shd g mod length pool"
  define pool' where "pool' = butlast (pool[j := last pool])"
  from ne have j: "j < length pool" by (simp add: j_def)
  from Suc.prems have "k \<le> length pool'" by (simp add: pool'_def)
  from Suc.IH [OF this, of "stl g"] obtain xs g' where
    r: "sample_pool pool' k (stl g) = Inr (xs, g')" "set xs \<subseteq> set pool'"
    by blast
  have "set pool' \<subseteq> set (pool[j := last pool])"
    by (auto simp: pool'_def dest: in_set_butlastD)
  also have "\<dots> \<subseteq> insert (last pool) (set pool)"
    by (rule set_update_subset_insert)
  also from ne have "\<dots> = set pool" by (simp add: insert_absorb)
  finally have sub: "set pool' \<subseteq> set pool" .
  from ne r(1) have "sample_pool pool (Suc k) g = Inr (pool ! j # xs, g')"
    by (simp add: Let_def j_def pool'_def)
  moreover from j r(2) sub have "set (pool ! j # xs) \<subseteq> set pool" by auto
  ultimately show ?case by blast
qed

lemma vary_note_ok:
  assumes "idx < length ns" "scale \<noteq> []" "list_all2 (same_but_pitch scale) ns0 ns"
  shows "\<exists>ns' g'. vary_note scale ns idx g = Inr (ns', g') \<and>
           list_all2 (same_but_pitch scale) ns0 ns'"
proof -
  define d where "d = [- 2, - 1, 1, 2 :: int] ! (shd g mod 4)"
  from snap_to_scale_ok [OF assms(2), of "pitch (ns ! idx) + d"] obtain p where
    p: "snap_to_scale scale (pitch (ns ! idx) + d) = Inr p" "p \<in> set scale"
    by blast
  define new where "new = \<lparr>pitch = p, start_time = start_time (ns ! idx),
     duration = duration (ns ! idx), velocity = velocity (ns ! idx)\<rparr>"
  have run: "vary_note scale ns idx g = Inr (ns[idx := new], stl g)"
    using p(1) by (simp add: vary_note_def Let_def bindR_def returnR_def liftE_def rnd_choice_def
        d_def new_def)
  from assms(1,3) have "same_but_pitch scale (ns0 ! idx) (ns ! idx)"
    by (simp add: list_all2_conv_all_nth)
  with p(2) have "same_but_pitch scale (ns0 ! idx) new"
    by (simp add: same_but_pitch_def new_def)
  from list_all2_update_cong [OF assms(3) this, of idx]
  have "list_all2 (same_but_pitch scale) ns0 (ns[idx := new])" by simp
  with run show ?thesis by blast
qed

lemma vary_notes_ok:
  assumes "scale \<noteq> []"
  shows "list_all (\<lambda>idx. idx < length ns) indices \<Longrightarrow> list_all2 (same_but_pitch scale) ns0 ns \<Longrightarrow>
    \<exists>ns' g'. vary_notes scale indices ns g = Inr (ns', g') \<and>
           list_all2 (same_but_pitch scale) ns0 ns'"
proof (induction indices arbitrary: ns g)
  case Nil
  then show ?case by (simp add: returnR_def)
next
  case (Cons idx indices)
  then have idx: "idx < length ns" by simp
  from vary_note_ok [OF idx assms Cons.prems(2), of g] obtain ns1 g1 where
    r: "vary_note scale ns idx g = Inr (ns1, g1)" "list_all2 (same_but_pitch scale) ns0 ns1"
    by blast
  from r(2) Cons.prems(2) have "length ns1 = length ns"
    by (simp add: list_all2_lengthD [symmetric])
  with Cons.prems(1) have "list_all (\<lambda>idx. idx < length ns1) indices" by simp
  from Cons.IH [OF this r(2), of g1] r(1) show ?case
    by (simp add: bindR_def)
qed

lemma same_but_pitch_refl: "list_all2 (same_but_pitch scale) ns ns"
  by (simp add: list_all2_same same_but_pitch_def)

lemma new_variation_ok:
  assumes "scale \<noteq> []"
  shows "\<exists>m' g'. new_variation m scale g = Inr (m', g') \<and>
           list_all2 (same_but_pitch scale) (melody_notes m) (melody_notes m') \<and>
           motifs m' = motifs m \<and> params m' = params m"
proof -
  let ?n = "int (length (melody_notes m))"
  define c where "c = 1 + int (shd g mod nat (max 1 (?n div 4) - 1 + 1))"
  have c: "rnd_randint 1 (max 1 (?n div 4)) g = Inr (c, stl g)" "1 \<le> c"
    by (simp_all add: rnd_randint_def c_def)
  define k where "k = min c ?n"
  from c(2) have k: "0 \<le> k" "k \<le> ?n" by (simp_all add: k_def)
  then have "nat k \<le> length [0..<length (melody_notes m)]" by simp
  from sample_pool_ok [OF this, of "stl g"] obtain indices g1 where
    s: "sample_pool [0..<length (melody_notes m)] (nat k) (stl g) = Inr (indices, g1)"
       "set indices \<subseteq> set [0..<length (melody_notes m)]"
    by blast
  from k s(1) have s': "rnd_sample [0..<length (melody_notes m)] k (stl g) = Inr (indices, g1)"
    by (simp add: rnd_sample_def)
  from s(2) have "list_all (\<lambda>idx. idx < length (melody_notes m)) indices"
    by (auto simp: list_all_iff)
  from vary_notes_ok [OF assms this same_but_pitch_refl, of g1] obtain ns' g2 where
    v: "vary_notes scale indices (melody_notes m) g1 = Inr (ns', g2)"
       "list_all2 (same_but_pitch scale) (melody_notes m) ns'"
    by blast
  have "new_variation m scale g =
    Inr (\<lparr>melody_notes = ns', motifs = motifs m, params = params m, uniqueness_score = 0\<rparr>, g2)"
    using c(1) s' v(1) by (simp add: new_variation_def Let_def bindR_def returnR_def k_def)
  with v(2) show ?thesis by simp
qed

lemma optimize_loop_ok:
  assumes "scale \<noteq> []"
  shows "list_all2 (same_but_pitch scale) (melody_notes m) (melody_notes b) \<Longrightarrow>
    motifs b = motifs m \<Longrightarrow> params b = params m \<Longrightarrow>
    \<exists>b' s' g'. optimize_loop m scale n b s g = Inr ((b', s'), g') \<and>
       list_all2 (same_but_pitch scale) (melody_notes m) (melody_notes b') \<and>
       motifs b' = motifs m \<and> params b' = params m"
proof (induction n arbitrary: b s g)
  case 0
  then show ?case by (simp add: returnR_def)
next
  case (Suc n)
  from new_variation_ok [OF assms, of m g] obtain m1 g1 where
    v: "new_variation m scale g = Inr (m1, g1)"
       "list_all2 (same_but_pitch scale) (melody_notes m) (melody_notes m1)"
       "motifs m1 = motifs m" "params m1 = params m"
    by blast
  note new = Suc.IH [OF v(2,3,4)]
  note old = Suc.IH [OF Suc.prems]
  show ?case
  proof (cases "s < calculate_uniqueness m1")
    case True
    with v(1) new [of "calculate_uniqueness m1" g1] show ?thesis
      by (simp add: bindR_def Let_def)
  next
    case False
    show ?thesis
    proof (cases "of_nat (shd g1 mod 2 ^ 53) / 2 ^ 53 < (1 / 10 :: rat)")
      case True
      with False v(1) new [of "calculate_uniqueness m1" "stl g1"] show ?thesis
        by (simp add: bindR_def Let_def rnd_random_def)
    next
      case r: False
      with False v(1) old [of s "stl g1"] show ?thesis
        by (simp add: bindR_def Let_def rnd_random_def)
    qed
  qed
qed

lemma optimize_melody_frame:
  "\<exists>m' g'. optimize_melody m max_iterations g = Inr (m', g') \<and>
     length (melody_notes m') = length (melody_notes m) \<and>
     list_all2 (same_but_pitch (scale_of m)) (melody_notes m) (melody_notes m') \<and>
     motifs m' = motifs m \<and> params m' = params m"
proof -
  from get_scale_notes_ok obtain scale where
    sc: "get_scale_notes (root_note (params m)) (mode (params m)) (octave (params m)) = Inr scale"
        "2 < length scale"
    by blast
  then have ne: "scale \<noteq> []" and so: "scale_of m = scale"
    by (auto simp: scale_of_def)
  from optimize_loop_ok [OF ne same_but_pitch_refl refl refl,
      of m "nat max_iterations" "calculate_uniqueness m" g]
  obtain b' s' g' where
    r: "optimize_loop m scale (nat max_iterations) m (calculate_uniqueness m) g = Inr ((b', s'), g')"
       "list_all2 (same_but_pitch scale) (melody_notes m) (melody_notes b')"
       "motifs b' = motifs m" "params b' = params m"
    by blast
  from sc(1) r(1) have "optimize_melody m max_iterations g = Inr (b'\<lparr>uniqueness_score := s'\<rparr>, g')"
    by (simp add: optimize_melody_def Let_def bindR_def returnR_def liftE_def)
  with r(2,3,4) so list_all2_lengthD [OF r(2)] show ?thesis
    by simp
qed

text \<open>
  C9. For every melody, iteration budget and generator state \<open>optimize_melody\<close>
  returns a melody with as many notes as the input; note by note the start time,
  the duration and the velocity are those of the input, and the pitch is the
  input's or a member of the scale of the melody's parameters. The motif list and
  the parameters are unchanged.
\<close>

theorem optimize_melody_changes_pitches_only:
  "\<exists>m' g'. optimize_melody m max_iterations g = Inr (m', g') \<and>
     length (melody_notes m') = length (melody_notes m) \<and>
     list_all2 (same_but_pitch (scale_of m)) (melody_notes m) (melody_notes m') \<and>
     motifs m' = motifs m \<and> params m' = params m"
  by (rule optimize_melody_frame)

section \<open>A duration of zero seconds\<close>

lemma choices_numeral: "choices xs (numeral k) = choices xs (Suc (pred_numeral k))"
  by (simp add: numeral_eq_Suc)

lemmas model_defs = dict_get_def dict_item_def get_scale_notes_def NOTE_MAP_def SCALES_def
  generate_contour_def snap_to_scale_def generate_motif_def develop_pitch_def develop_duration_def
  develop_motif_def str_int_def str_int_list_def intervals_def get_hash_def window_pattern_def
  calculate_uniqueness_def vary_note_def new_variation_def optimize_melody_def list_item_def
  next_motif_def adjusted_note_def place_motif_def assemble_step_def int_of_quotient_def
  initial_assembler_def generate_melody_def default_params_def Let_def choices_numeral

lemma choices_ok:
  "xs \<noteq> [] \<Longrightarrow> \<exists>ys g'. choices xs n g = Inr (ys, g')"
proof (induction n arbitrary: g)
  case 0
  then show ?case by (simp add: returnR_def)
next
  case (Suc n)
  from Suc.IH [OF Suc.prems, of "stl g"] obtain ys g' where
    "choices xs n (stl g) = Inr (ys, g')" by blast
  with Suc.prems show ?case
    by (simp add: bindR_def returnR_def rnd_choice_def)
qed

lemma choices_zero: "choices xs 0 g = Inr ([], g)"
  by (simp add: returnR_def)

lemma wave_loop_ok:
  "\<exists>ys g'. wave_loop i n d g = Inr (ys, g') \<and> (n = 0 \<longrightarrow> ys = [])"
proof (induction n arbitrary: i d g)
  case 0
  then show ?case by (simp add: returnR_def)
next
  case (Suc n)
  from Suc.IH [of "Suc i" "if i mod 3 = 0 then d * (- 1) else d" "stl g"] obtain ys g' where
    "wave_loop (Suc i) n (if i mod 3 = 0 then d * (- 1) else d) (stl g) = Inr (ys, g')" by blast
  then show ?case
    by (simp add: bindR_def returnR_def rnd_choice_def Let_def)
qed

lemma generate_contour_ok:
  "\<exists>c g'. generate_contour ct len g = Inr (c, g') \<and> (len \<le> 0 \<longrightarrow> c = [])"
proof (cases ct)
  case ARCH
  obtain rise g1 where r: "choices [1, 2, 3 :: int] (nat (len div 2)) g = Inr (rise, g1)"
    using choices_ok [of "[1, 2, 3 :: int]"] by blast
  obtain fall g2 where f: "choices [- 1, - 2, - 3 :: int] (nat (len - len div 2)) g1 = Inr (fall, g2)"
    using choices_ok [of "[- 1, - 2, - 3 :: int]"] by blast
  have "len \<le> 0 \<Longrightarrow> rise = [] \<and> fall = []"
  proof -
    assume le: "len \<le> 0"
    then have "nat (len div 2) = 0" "nat (len - len div 2) = 0" by simp_all
    with r f show ?thesis by (simp add: returnR_def)
  qed
  with ARCH r f show ?thesis
    by (auto simp: generate_contour_def Let_def bindR_def returnR_def)
next
  case DESCENDING
  obtain ys g1 where r: "choices [- 1, - 2, 0, - 1 :: int] (nat len) g = Inr (ys, g1)"
    using choices_ok [of "[- 1, - 2, 0, - 1 :: int]"] by blast
  with DESCENDING show ?thesis
    by (cases "len \<le> 0") (auto simp: generate_contour_def returnR_def)
next
  case ASCENDING
  obtain ys g1 where r: "choices [1, 2, 0, 1 :: int] (nat len) g = Inr (ys, g1)"
    using choices_ok [of "[1, 2, 0, 1 :: int]"] by blast
  with ASCENDING show ?thesis
    by (cases "len \<le> 0") (auto simp: generate_contour_def returnR_def)
next
  case WAVE
  from wave_loop_ok [of 0 "nat len" 1 g] obtain ys g1 where
    "wave_loop 0 (nat len) 1 g = Inr (ys, g1) \<and> (nat len = 0 \<longrightarrow> ys = [])" by auto
  with WAVE show ?thesis
    by (auto simp: generate_contour_def)
next
  case STATIC
  obtain ys g1 where r: "choices [- 1, 0, 1, 0 :: int] (nat len) g = Inr (ys, g1)"
    using choices_ok [of "[- 1, 0, 1, 0 :: int]"] by blast
  with STATIC show ?thesis
    by (cases "len \<le> 0") (auto simp: generate_contour_def returnR_def)
qed

lemma rnd_random_ok: "\<exists>r. rnd_random g = Inr (r, stl g)"
  unfolding rnd_random_def by blast

lemma duration_choice_ok:
  "\<exists>d. (if c then rnd_choice [1 / 2, 3 / 4] else rnd_choice [1 / 2, 1, 3 / 2 :: rat]) g
        = Inr (d, stl g)"
  by (simp add: rnd_choice_def)

lemma generate_motif_loop_ok:
  assumes "scale \<noteq> []" "fst (velocity_range ps) \<le> snd (velocity_range ps)"
  shows "\<exists>ns g'. generate_motif_loop scale ps c cur t g = Inr (ns, g')"
proof (induction c arbitrary: cur t g)
  case Nil
  then show ?case by (simp add: returnR_def)
next
  case (Cons interval rest)
  from snap_to_scale_ok [OF assms(1), of "cur + interval"] obtain q where
    q: "snap_to_scale scale (cur + interval) = Inr q" by blast
  obtain r1 where r1: "rnd_random g = Inr (r1, stl g)" using rnd_random_ok by blast
  obtain r2 where r2: "rnd_random (stl g) = Inr (r2, stl (stl g))" using rnd_random_ok by blast
  obtain d where d: "(if r2 < syncopation ps then rnd_choice [1 / 2, 3 / 4]
             else rnd_choice [1 / 2, 1, 3 / 2 :: rat]) (stl (stl g)) = Inr (d, stl (stl (stl g)))"
    using duration_choice_ok by blast
  obtain v where v: "rnd_randint (fst (velocity_range ps)) (snd (velocity_range ps)) (stl (stl (stl g)))
      = Inr (v, stl (stl (stl (stl g))))"
    using assms(2) by (simp add: rnd_randint_def)
  from Cons.IH [of "if r1 < 1 / 10 then cur + interval else q" "t + d" "stl (stl (stl (stl g)))"]
  obtain ns g' where
    "generate_motif_loop scale ps rest (if r1 < 1 / 10 then cur + interval else q) (t + d)
       (stl (stl (stl (stl g)))) = Inr (ns, g')" by blast
  with q r1 r2 d v show ?case
    by (simp add: bindR_def returnR_def liftE_def Let_def)
qed

lemma generate_motif_ok:
  assumes "scale \<noteq> []" "len \<le> 0 \<or> fst (velocity_range ps) \<le> snd (velocity_range ps)"
  shows "\<exists>m g'. generate_motif scale start_pitch len ct ps g = Inr (m, g')"
proof -
  from generate_contour_ok [of ct len g] obtain c g1 where
    c: "generate_contour ct len g = Inr (c, g1)" "len \<le> 0 \<longrightarrow> c = []" by blast
  have "\<exists>ns g'. generate_motif_loop scale ps c start_pitch 0 g1 = Inr (ns, g')"
  proof (cases "fst (velocity_range ps) \<le> snd (velocity_range ps)")
    case True
    from generate_motif_loop_ok [OF assms(1) this] show ?thesis .
  next
    case False
    with assms(2) c(2) have "c = []" by simp
    then show ?thesis by (simp add: returnR_def)
  qed
  then obtain ns g2 where "generate_motif_loop scale ps c start_pitch 0 g1 = Inr (ns, g2)" by blast
  with c(1) show ?thesis
    by (simp add: generate_motif_def bindR_def returnR_def)
qed

lemma assemble_done:
  "\<not> current_time st < of_int total_beats \<Longrightarrow>
   assemble md5_hexdigest ps scale total_beats st g = Some (Inr (st, g))"
  by (subst assemble.simps) simp

text \<open>
  C8, as the code has it. With a duration of 0 seconds \<open>generate_melody\<close> returns a
  melody without notes whenever the initial motif can be generated: when the
  velocity range is not empty, or no note is asked for (a motif length below 1).
  The loop is not entered, and the optimizer leaves the empty note list empty.
\<close>

theorem generate_melody_zero_duration:
  assumes "duration_seconds ps = 0"
    and "motif_length ps \<le> 0 \<or> fst (velocity_range ps) \<le> snd (velocity_range ps)"
  shows "\<exists>m g'. generate_melody seed_rng md5_hexdigest ps seed g = Some (Inr (m, g')) \<and>
           melody_notes m = []"
proof -
  define g0 where "g0 = (case seed of None \<Rightarrow> g | Some s \<Rightarrow> seed_rng s)"
  from get_scale_notes_ok obtain scale where
    sc: "get_scale_notes (root_note ps) (mode ps) (octave ps) = Inr scale" "2 < length scale"
    by blast
  then have ne: "scale \<noteq> []" by auto
  from generate_motif_ok [OF ne assms(2), of "scale ! 2" "contour ps" g0] obtain m0 g1 where
    m0: "generate_motif scale (scale ! 2) (motif_length ps) (contour ps) ps g0 = Inr (m0, g1)"
    by blast
  have loop: "assemble md5_hexdigest ps scale 0 (initial_assembler ps m0) g1 =
     Some (Inr (initial_assembler ps m0, g1))"
    by (rule assemble_done) (simp add: initial_assembler_def)
  let ?mel = "\<lparr>melody_notes = [], motifs = [], params = ps, uniqueness_score = 0\<rparr>"
  from optimize_melody_frame [of ?mel 10 g1] obtain m' g' where
    o: "optimize_melody ?mel 10 g1 = Inr (m', g')" "length (melody_notes m') = length (melody_notes ?mel)"
    by blast
  from sc m0 loop o(1) assms(1) have "generate_melody seed_rng md5_hexdigest ps seed g = Some (Inr (m', g'))"
    by (simp add: generate_melody_def g0_def [symmetric] Let_def bindR_def liftE_def list_item_def
        int_of_quotient_def initial_assembler_def)
  with o(2) show ?thesis by simp
qed

theorem generate_melody_zero_duration_witness:
  "duration_seconds (default_params\<lparr>duration_seconds := 0\<rparr>) = 0 \<and>
   fst (velocity_range (default_params\<lparr>duration_seconds := 0\<rparr>))
     \<le> snd (velocity_range (default_params\<lparr>duration_seconds := 0\<rparr>)) \<and>
   (\<exists>m g'. generate_melody (\<lambda>s. sconst 0) (\<lambda>s. s) (default_params\<lparr>duration_seconds := 0\<rparr>)
              (Some 42) (sconst 0) = Some (Inr (m, g')) \<and>
           melody_notes m = [])"
  using generate_melody_zero_duration
    [of "default_params\<lparr>duration_seconds := 0\<rparr>" "\<lambda>s. sconst 0" "\<lambda>s. s" "Some 42" "sconst 0"]
  by (simp add: default_params_def)

text \<open>
  C8 as stated fails: the initial motif is generated before the loop, whatever the
  duration, and \<open>random.randint\<close> raises ValueError on the velocity range (80, 50).
\<close>

theorem generate_melody_zero_duration_raises:
  "generate_melody (\<lambda>s. sconst 0) (\<lambda>s. s)
     (default_params\<lparr>duration_seconds := 0, velocity_range := (80, 50)\<rparr>) None (sconst 0)
   = Some (Inl ValueError)"
  by (simp add: rand_defs model_defs cong: eval_congs)

end
